theory Spec2Isabelle
  imports Complex_Main
begin

section \<open>Numbers and built-ins\<close>

text \<open>
  The program is JavaScript. Its arithmetic is modelled as exact, on mathematical reals:
  signed zeros, NaN and the infinities of IEEE doubles are outside the model, and so is
  rounding, with one exception. Whether the loops of \<^verbatim>\<open>normalizeBearing\<close> exit depends
  on rounding, so these loops are given a second time below, with every step rounded to
  double precision. The
  \<^verbatim>\<open>Math\<close> built-ins are the real functions of the same name: \<^verbatim>\<open>Math.sin\<close> is
  \<^term>\<open>sin\<close>, \<^verbatim>\<open>Math.log\<close> is \<^term>\<open>ln\<close>, \<^verbatim>\<open>Math.acos\<close> is \<^term>\<open>arccos\<close>,
  \<^verbatim>\<open>Math.pow(2, v)\<close> is \<open>2 powr v\<close>. \<^verbatim>\<open>Math.atan2\<close> is written out below.
\<close>

definition atan2 :: "real \<Rightarrow> real \<Rightarrow> real" where
  "atan2 y x =
     (if 0 < x then arctan (y / x)
      else if x < 0 then (if 0 \<le> y then arctan (y / x) + pi else arctan (y / x) - pi)
      else if 0 < y then pi / 2
      else if y < 0 then - (pi / 2)
      else 0)"

text \<open>
  \<^verbatim>\<open>v || d\<close> on an optional number: the default \<open>d\<close> is taken when \<open>v\<close> is undefined
  and also when it is the falsy number 0.
\<close>

definition js_or :: "real option \<Rightarrow> real \<Rightarrow> real" where
  "js_or v d = (case v of None \<Rightarrow> d | Some b \<Rightarrow> if b = 0 then d else b)"

section \<open>position-worker.js: configuration and state\<close>

definition maxAcceleration :: real where "maxAcceleration = 3"
definition maxSpeed :: real where "maxSpeed = 55"
definition minSpeedThreshold :: real where "minSpeedThreshold = 1 / 10"
definition earthRadius :: real where "earthRadius = 6371000"
definition positionSmoothing :: real where "positionSmoothing = 85 / 100"
definition bearingSmoothing :: real where "bearingSmoothing = 75 / 100"
definition speedSmoothing :: real where "speedSmoothing = 8 / 10"
definition mercatorScale :: real where "mercatorScale = 1 / (2 * pi)"

text \<open>
  The \<^verbatim>\<open>position\<close> object of a worker message. \<open>lng\<close> and \<open>lat\<close> are always there;
  the source's fields \<^verbatim>\<open>bearing\<close> and \<^verbatim>\<open>t\<close> are named \<open>hint_bearing\<close> and
  \<open>interp_t\<close> here, and an absent (undefined) field is \<open>None\<close>.
\<close>

record position_msg =
  lng :: real
  lat :: real
  hint_bearing :: "real option"
  interp_t :: "real option"
  targetLng :: "real option"
  targetLat :: "real option"
  targetBearing :: "real option"

text \<open>An object literal \<^verbatim>\<open>{lng, lat}\<close> or \<^verbatim>\<open>{x, y}\<close>.\<close>

definition lngLat :: "real \<Rightarrow> real \<Rightarrow> position_msg" where
  "lngLat a b = \<lparr>lng = a, lat = b, hint_bearing = None, interp_t = None,
                 targetLng = None, targetLat = None, targetBearing = None\<rparr>"

record vec =
  vec_x :: real
  vec_y :: real

record worker_state =
  position :: "position_msg option"
  velocity :: vec
  acceleration :: vec
  bearing :: real
  speed :: real
  lastTimestamp :: real
  lastValidBearing :: real

definition initial_state :: worker_state where
  "initial_state = \<lparr>position = None, velocity = \<lparr>vec_x = 0, vec_y = 0\<rparr>,
     acceleration = \<lparr>vec_x = 0, vec_y = 0\<rparr>, bearing = 0, speed = 0,
     lastTimestamp = 0, lastValidBearing = 0\<rparr>"

section \<open>GeoMath\<close>

definition toRadians :: "real \<Rightarrow> real" where
  "toRadians degrees = degrees * (pi / 180)"

definition toDegrees :: "real \<Rightarrow> real" where
  "toDegrees radians = radians * (180 / pi)"

text \<open>
  \<^verbatim>\<open>normalizeBearing\<close> is two while loops in sequence. Each is a recursive function into
  \<open>option\<close>, where \<open>None\<close> stands for a loop that never exits. This first version
  subtracts and adds exactly; it gives the values the program computes wherever
  \<open>b - 360\<close> and \<open>b + 360\<close> are doubles again, as for the bearings of a compass. It says
  nothing about very large arguments, for which see \<open>normalizeBearing_double\<close>.
\<close>

partial_function (option) subtractLoop :: "real \<Rightarrow> real option" where
  "subtractLoop b = (if b > 360 then subtractLoop (b - 360) else Some b)"

partial_function (option) addLoop :: "real \<Rightarrow> real option" where
  "addLoop b = (if b < 0 then addLoop (b + 360) else Some b)"

definition normalizeBearing :: "real \<Rightarrow> real option" where
  "normalizeBearing b = Option.bind (subtractLoop b) addLoop"

subsection \<open>The same loops in double precision\<close>

text \<open>
  A JavaScript number is an IEEE 754 binary64 value, and \<^verbatim>\<open>bearing -= 360\<close> stores the
  exact difference rounded to the nearest such value, ties going to the even significand.
  For \<open>x\<close> with \<open>2 ^ e \<le> \<bar>x\<bar> < 2 ^ (e + 1)\<close> the doubles around \<open>x\<close> are the multiples
  of \<open>2 ^ (e - 52)\<close>; below \<open>2 ^ (- 1022)\<close> the spacing stays at \<open>2 ^ (- 1074)\<close>.
  \<open>round_double\<close> is that rounding. It has no overflow case: a loop step moves a double
  towards zero, so its result never exceeds the largest double.
\<close>

definition round_even :: "real \<Rightarrow> int" where
  "round_even r =
     (let f = \<lfloor>r\<rfloor>
      in if r - of_int f < 1 / 2 then f
         else if 1 / 2 < r - of_int f then f + 1
         else if even f then f else f + 1)"

definition round_double :: "real \<Rightarrow> real" where
  "round_double x =
     (if x = 0 then 0
      else (let e = max \<lfloor>log 2 \<bar>x\<bar>\<rfloor> (- 1022);
                u = 2 powr of_int (e - 52)
            in of_int (round_even (x / u)) * u))"

partial_function (option) subtractLoop_double :: "real \<Rightarrow> real option" where
  "subtractLoop_double b =
     (if b > 360 then subtractLoop_double (round_double (b - 360)) else Some b)"

partial_function (option) addLoop_double :: "real \<Rightarrow> real option" where
  "addLoop_double b =
     (if b < 0 then addLoop_double (round_double (b + 360)) else Some b)"

definition normalizeBearing_double :: "real \<Rightarrow> real option" where
  "normalizeBearing_double b = Option.bind (subtractLoop_double b) addLoop_double"

definition toMercator :: "real \<Rightarrow> real \<Rightarrow> vec" where
  "toMercator lng' lat' =
     \<lparr>vec_x = lng' * mercatorScale,
      vec_y = ln (tan (pi / 4 + toRadians lat' / 2)) * mercatorScale\<rparr>"

definition fromMercator :: "real \<Rightarrow> real \<Rightarrow> position_msg" where
  "fromMercator x' y' =
     lngLat (x' / mercatorScale)
            (toDegrees (2 * arctan (exp (y' / mercatorScale)) - pi / 2))"

definition calculateDistance :: "position_msg \<Rightarrow> position_msg \<Rightarrow> real" where
  "calculateDistance pos1 pos2 =
     (let phi1 = toRadians (lat pos1);
          phi2 = toRadians (lat pos2);
          dphi = toRadians (lat pos2 - lat pos1);
          dlambda = toRadians (lng pos2 - lng pos1);
          a = sin (dphi / 2) * sin (dphi / 2) +
              cos phi1 * cos phi2 * sin (dlambda / 2) * sin (dlambda / 2);
          c = 2 * atan2 (sqrt a) (sqrt (1 - a))
      in earthRadius * c)"

definition calculateBearing :: "position_msg \<Rightarrow> position_msg \<Rightarrow> real option" where
  "calculateBearing pos1 pos2 =
     (let phi1 = toRadians (lat pos1);
          phi2 = toRadians (lat pos2);
          lambda1 = toRadians (lng pos1);
          lambda2 = toRadians (lng pos2);
          y' = sin (lambda2 - lambda1) * cos phi2;
          x' = cos phi1 * sin phi2 - sin phi1 * cos phi2 * cos (lambda2 - lambda1)
      in normalizeBearing (toDegrees (atan2 y' x')))"

section \<open>Physics\<close>

definition smooth :: "real \<Rightarrow> real \<Rightarrow> real \<Rightarrow> real" where
  "smooth current target factor = current + (target - current) * factor"

definition smoothBearing :: "real \<Rightarrow> real \<Rightarrow> real \<Rightarrow> real option" where
  "smoothBearing current target factor =
     (let diff = target - current;
          diff = (if \<bar>diff\<bar> > 180 then (if diff > 0 then diff - 360 else diff + 360) else diff)
      in normalizeBearing (current + diff * factor))"

definition updateVelocity :: "position_msg \<Rightarrow> position_msg \<Rightarrow> real \<Rightarrow> vec" where
  "updateVelocity oldPos newPos deltaTime =
     (let merc1 = toMercator (lng oldPos) (lat oldPos);
          merc2 = toMercator (lng newPos) (lat newPos)
      in \<lparr>vec_x = (vec_x merc2 - vec_x merc1) / deltaTime,
          vec_y = (vec_y merc2 - vec_y merc1) / deltaTime\<rparr>)"

definition updateAcceleration :: "vec \<Rightarrow> vec \<Rightarrow> real \<Rightarrow> vec" where
  "updateAcceleration oldVel newVel deltaTime =
     \<lparr>vec_x = (vec_x newVel - vec_x oldVel) / deltaTime,
      vec_y = (vec_y newVel - vec_y oldVel) / deltaTime\<rparr>"

definition clampAcceleration :: "vec \<Rightarrow> vec" where
  "clampAcceleration acc =
     (let magnitude = sqrt (vec_x acc * vec_x acc + vec_y acc * vec_y acc)
      in if magnitude > maxAcceleration
         then (let scale = maxAcceleration / magnitude
               in \<lparr>vec_x = vec_x acc * scale, vec_y = vec_y acc * scale\<rparr>)
         else acc)"

text \<open>The two interpolations exist in the debug-instrumented worker only.\<close>

definition lerpPosition :: "position_msg \<Rightarrow> position_msg \<Rightarrow> real \<Rightarrow> position_msg" where
  "lerpPosition pos1 pos2 t =
     lngLat (lng pos1 + (lng pos2 - lng pos1) * t) (lat pos1 + (lat pos2 - lat pos1) * t)"

text \<open>
  \<^verbatim>\<open>slerpPosition\<close> first turns each point into a unit vector and takes their dot
  product. \<open>cartesian\<close> and \<open>sphereDot\<close> name these two steps of its body.
\<close>

definition cartesian :: "position_msg \<Rightarrow> real \<times> real \<times> real" where
  "cartesian pos =
     (let phi = toRadians (90 - lat pos);
          theta = toRadians (lng pos)
      in (sin phi * cos theta, sin phi * sin theta, cos phi))"

definition sphereDot :: "position_msg \<Rightarrow> position_msg \<Rightarrow> real" where
  "sphereDot pos1 pos2 =
     (case (cartesian pos1, cartesian pos2) of
        ((x1, y1, z1), (x2, y2, z2)) \<Rightarrow> x1 * x2 + y1 * y2 + z1 * z2)"

definition slerpPosition :: "position_msg \<Rightarrow> position_msg \<Rightarrow> real \<Rightarrow> position_msg" where
  "slerpPosition pos1 pos2 t =
     (case (cartesian pos1, cartesian pos2) of
        ((x1, y1, z1), (x2, y2, z2)) \<Rightarrow>
          (let dot = sphereDot pos1 pos2
           in if dot > 9999 / 10000 then lerpPosition pos1 pos2 t
              else
                (let omega = arccos (max (-1) (min 1 dot));
                     sinOmega = sin omega;
                     factor1 = sin ((1 - t) * omega) / sinOmega;
                     factor2 = sin (t * omega) / sinOmega;
                     x' = x1 * factor1 + x2 * factor2;
                     y' = y1 * factor1 + y2 * factor2;
                     z' = z1 * factor1 + z2 * factor2;
                     phi = arccos z';
                     theta = atan2 y' x'
                 in lngLat (toDegrees theta) (90 - toDegrees phi))))"

section \<open>processPosition, the worker without debug output\<close>

text \<open>
  The module-level \<^verbatim>\<open>state\<close> is passed in and returned. In the source the assignment
  to \<^verbatim>\<open>state.lastValidBearing\<close> happens only when the distance exceeds the threshold;
  otherwise \<open>newBearing\<close> is the old \<open>lastValidBearing\<close>, so the update below writes the
  same value.
\<close>

definition processPosition :: "position_msg \<Rightarrow> real \<Rightarrow> worker_state \<Rightarrow> worker_state option" where
  "processPosition newPosition timestamp state =
     (case position state of
        None \<Rightarrow>
          Some (state\<lparr>position := Some newPosition, lastTimestamp := timestamp,
                      lastValidBearing := js_or (hint_bearing newPosition) 0\<rparr>)
      | Some pos \<Rightarrow>
          (let deltaTime = (timestamp - lastTimestamp state) / 1000
           in if deltaTime \<le> 0 then Some state
              else
                (let distance = calculateDistance pos newPosition
                 in Option.bind
                      (if distance > minSpeedThreshold then calculateBearing pos newPosition
                       else Some (lastValidBearing state))
                      (\<lambda>newBearing.
                         let newVelocity = updateVelocity pos newPosition deltaTime;
                             newAcceleration = updateAcceleration (velocity state) newVelocity deltaTime
                         in Option.bind (smoothBearing (bearing state) newBearing bearingSmoothing)
                              (\<lambda>b. Some (state\<lparr>
                                 lastValidBearing := newBearing,
                                 velocity :=
                                   \<lparr>vec_x = smooth (vec_x (velocity state)) (vec_x newVelocity) speedSmoothing,
                                    vec_y = smooth (vec_y (velocity state)) (vec_y newVelocity) speedSmoothing\<rparr>,
                                 acceleration := clampAcceleration newAcceleration,
                                 bearing := b,
                                 speed := (if distance / deltaTime > maxSpeed then maxSpeed
                                           else distance / deltaTime),
                                 position := Some (lngLat
                                   (smooth (lng pos) (lng newPosition) positionSmoothing)
                                   (smooth (lat pos) (lat newPosition) positionSmoothing)),
                                 lastTimestamp := timestamp\<rparr>))))))"

record response =
  resp_position :: "position_msg option"
  resp_bearing :: real
  resp_speed :: real
  resp_velocity :: vec
  resp_timestamp :: real

datatype reply = ErrorReply string | PoseReply response

definition poseOf :: "worker_state \<Rightarrow> response" where
  "poseOf updatedState =
     \<lparr>resp_position = position updatedState, resp_bearing = bearing updatedState,
      resp_speed = speed updatedState, resp_velocity = velocity updatedState,
      resp_timestamp = lastTimestamp updatedState\<rparr>"

text \<open>
  \<^verbatim>\<open>self.onmessage\<close>: the posted reply and the state afterwards. Nothing in
  \<^verbatim>\<open>processPosition\<close> throws on a message with numeric \<open>lng\<close> and \<open>lat\<close>, so the
  \<^verbatim>\<open>catch\<close> branch has no case here.
\<close>

definition onmessage :: "position_msg option \<Rightarrow> real \<Rightarrow> worker_state \<Rightarrow> (reply \<times> worker_state) option" where
  "onmessage pos timestamp state =
     (case pos of
        None \<Rightarrow> Some (ErrorReply ''Invalid position data'', state)
      | Some p \<Rightarrow>
          map_option (\<lambda>updatedState. (PoseReply (poseOf updatedState), updatedState))
            (processPosition p timestamp state))"

section \<open>processPosition, the debug-instrumented worker\<close>

text \<open>The \<^verbatim>\<open>debugLog\<close> calls only print; they are left out.\<close>

definition isInterpolationRequest :: "position_msg \<Rightarrow> bool" where
  "isInterpolationRequest newPosition \<longleftrightarrow>
     interp_t newPosition \<noteq> None \<and> targetLng newPosition \<noteq> None \<and> targetLat newPosition \<noteq> None"

text \<open>
  The interpolation branch; \<open>t\<close>, \<open>tLng\<close> and \<open>tLat\<close> are the message's fields
  \<^verbatim>\<open>t\<close>, \<^verbatim>\<open>targetLng\<close> and \<^verbatim>\<open>targetLat\<close>, present when the branch is taken.
\<close>

definition interpolateRequest ::
  "position_msg \<Rightarrow> real \<Rightarrow> real \<Rightarrow> real \<Rightarrow> real \<Rightarrow> worker_state \<Rightarrow> worker_state option" where
  "interpolateRequest newPosition t tLng tLat timestamp state =
     (let sourcePos = lngLat (lng newPosition) (lat newPosition);
          targetPos = lngLat tLng tLat;
          interpolatedPos = slerpPosition sourcePos targetPos t;
          sourceBearing = js_or (hint_bearing newPosition) 0;
          targetBearing' = js_or (targetBearing newPosition) sourceBearing;
          interpolatedBearing =
            (if \<bar>targetBearing' - sourceBearing\<bar> > 180
             then (let adjustedTarget =
                         (if targetBearing' > sourceBearing then targetBearing' - 360
                          else targetBearing' + 360)
                   in sourceBearing + (adjustedTarget - sourceBearing) * t)
             else sourceBearing + (targetBearing' - sourceBearing) * t)
      in Option.bind (normalizeBearing interpolatedBearing)
           (\<lambda>b. Some (state\<lparr>position := Some interpolatedPos, bearing := b,
                             lastTimestamp := timestamp\<rparr>)))"

definition processPosition_debug :: "position_msg \<Rightarrow> real \<Rightarrow> worker_state \<Rightarrow> worker_state option" where
  "processPosition_debug newPosition timestamp state =
     (if isInterpolationRequest newPosition
      then interpolateRequest newPosition (the (interp_t newPosition))
             (the (targetLng newPosition)) (the (targetLat newPosition)) timestamp state
      else
       (case position state of
          None \<Rightarrow>
            Some (state\<lparr>position := Some newPosition, lastTimestamp := timestamp,
                        lastValidBearing := js_or (hint_bearing newPosition) 0\<rparr>)
        | Some pos \<Rightarrow>
            (let deltaTime = (timestamp - lastTimestamp state) / 1000
             in if deltaTime \<le> 0 then Some state
                else
                  (let distance = calculateDistance pos newPosition
                   in Option.bind
                        (if distance > minSpeedThreshold then calculateBearing pos newPosition
                         else Some (lastValidBearing state))
                        (\<lambda>newBearing.
                           let newVelocity = updateVelocity pos newPosition deltaTime;
                               newAcceleration = updateAcceleration (velocity state) newVelocity deltaTime
                           in Option.bind (smoothBearing (bearing state) newBearing bearingSmoothing)
                                (\<lambda>b. let rawPosition = newPosition
                                     in Some (state\<lparr>
                                   lastValidBearing := newBearing,
                                   velocity :=
                                     \<lparr>vec_x = smooth (vec_x (velocity state)) (vec_x newVelocity) speedSmoothing,
                                      vec_y = smooth (vec_y (velocity state)) (vec_y newVelocity) speedSmoothing\<rparr>,
                                   acceleration := clampAcceleration newAcceleration,
                                   bearing := b,
                                   speed := (if distance / deltaTime > maxSpeed then maxSpeed
                                             else distance / deltaTime),
                                   position := Some (lngLat
                                     (smooth (lng pos) (lng rawPosition) positionSmoothing)
                                     (smooth (lat pos) (lat rawPosition) positionSmoothing)),
                                   lastTimestamp := timestamp\<rparr>)))))))"


section \<open>unified-animation.js: the animation controller\<close>

text \<open>
  The controller exists in two copies: the debug-instrumented one of
  \<^verbatim>\<open>src/unified-animation.js\<close> and the plain one of \<^verbatim>\<open>src/unnamed/part_003\<close>.
  \<^verbatim>\<open>setSpeed\<close>, \<^verbatim>\<open>calculateCameraOffset\<close>, \<^verbatim>\<open>updateCameraOffset\<close> and the
  \<^verbatim>\<open>easeTo\<close> call of \<^verbatim>\<open>updateCamera\<close> read the same in both. \<^verbatim>\<open>updatePosition\<close>
  differs and is given once for each copy. The controller's \<^verbatim>\<open>state.speed\<close> is the field
  \<open>anim_speed\<close>.
\<close>

record anim_state =
  isPlaying :: bool
  currentTime :: real
  duration :: real
  anim_speed :: real
  lastFrameTime :: real

definition initial_anim_state :: anim_state where
  "initial_anim_state =
     \<lparr>isPlaying = False, currentTime = 0, duration = 0, anim_speed = 1, lastFrameTime = 0\<rparr>"

definition setSpeed :: "real \<Rightarrow> anim_state \<Rightarrow> anim_state" where
  "setSpeed speed' st = st\<lparr>anim_speed := speed'\<rparr>"

text \<open>
  A track feature: \<^verbatim>\<open>properties.timestamp\<close>, \<^verbatim>\<open>geometry.coordinates[0]\<close> and
  \<^verbatim>\<open>[1]\<close>, and the optional \<^verbatim>\<open>properties.bearing\<close>.
\<close>

record feature =
  timestamp_ms :: real
  coord_lng :: real
  coord_lat :: real
  feature_bearing :: "real option"

record track_data =
  features :: "feature list"
  timeRange_start :: real
  timeRange_end :: real

text \<open>\<^verbatim>\<open>Array.prototype.findIndex\<close>: the first index whose element passes, or -1.\<close>

fun findIndexFrom :: "('a \<Rightarrow> bool) \<Rightarrow> 'a list \<Rightarrow> nat \<Rightarrow> int" where
  "findIndexFrom P [] i = - 1"
| "findIndexFrom P (x # xs) i = (if P x then int i else findIndexFrom P xs (Suc i))"

definition findIndex :: "('a \<Rightarrow> bool) \<Rightarrow> 'a list \<Rightarrow> int" where
  "findIndex P xs = findIndexFrom P xs 0"

text \<open>An array read \<^verbatim>\<open>xs[i]\<close>: undefined (\<open>None\<close>) outside the array.\<close>

definition at_index :: "'a list \<Rightarrow> int \<Rightarrow> 'a option" where
  "at_index xs i = (if 0 \<le> i \<and> i < int (length xs) then Some (xs ! nat i) else None)"

text \<open>
  \<^verbatim>\<open>updatePosition\<close> of the plain copy (\<^verbatim>\<open>src/unnamed/part_003\<close>): the
  \<^verbatim>\<open>position\<close> object posted to the worker, or \<open>None\<close> when the method returns early
  without posting.
\<close>

definition updatePosition :: "track_data \<Rightarrow> real \<Rightarrow> position_msg option" where
  "updatePosition trackData time =
     (if length (features trackData) = 0 then None
      else
        (let targetTime = timeRange_start trackData + time * 1000;
             nextIndex = findIndex (\<lambda>f. timestamp_ms f > targetTime) (features trackData);
             nextIndex = (if nextIndex = - 1 then int (length (features trackData)) else nextIndex);
             prevIndex = max 0 (nextIndex - 1)
         in case at_index (features trackData) prevIndex of
              None \<Rightarrow> None
            | Some prev \<Rightarrow>
                (let next = (case at_index (features trackData) nextIndex of
                               None \<Rightarrow> prev | Some f \<Rightarrow> f);
                     prevTime = timestamp_ms prev;
                     nextTime = timestamp_ms next;
                     t = (if prevTime = nextTime then 0
                          else (targetTime - prevTime) / (nextTime - prevTime))
                 in Some \<lparr>lng = coord_lng prev, lat = coord_lat prev,
                           hint_bearing = feature_bearing prev, interp_t = Some t,
                           targetLng = Some (coord_lng next), targetLat = Some (coord_lat next),
                           targetBearing = feature_bearing next\<rparr>)))"

text \<open>
  \<^verbatim>\<open>updatePosition\<close> of the instrumented copy (\<^verbatim>\<open>src/unified-animation.js\<close>). Between
  the index search and the reads of \<open>prev\<close> and \<open>next\<close> it keeps books in
  \<^verbatim>\<open>this.debugState\<close>, an object that \<^verbatim>\<open>initDebugOverlay\<close> creates only when the page
  has no \<^verbatim>\<open>#debugOverlay\<close> element yet. The read of \<^verbatim>\<open>lastPositionUpdate\<close> is guarded
  by \<^verbatim>\<open>?.\<close>; the write that follows is not, and throws a TypeError on an undefined
  \<^verbatim>\<open>debugState\<close>.

  \<open>debugState\<close> is \<open>None\<close> when undefined; of its fields those that \<^verbatim>\<open>updatePosition\<close>
  touches are modelled. \<open>positionDebug\<close> says whether the page has the element
  \<^verbatim>\<open>#positionDebug\<close>, and \<open>now\<close> is the value of \<^verbatim>\<open>performance.now()\<close>. A history
  entry keeps the numbers that the source formats with \<^verbatim>\<open>toFixed\<close>. The result is the
  error thrown, or the posted \<^verbatim>\<open>position\<close> object (if any) with the new \<open>debugState\<close>.
  The writes to \<^verbatim>\<open>innerHTML\<close> change the page only.
\<close>

datatype js_error = TypeError

record position_update =
  pu_time :: real
  pu_prevIndex :: int
  pu_nextIndex :: int
  pu_totalPoints :: nat
  pu_updateInterval :: real

record debug_state =
  lastPositionUpdate :: real
  positionUpdates :: "position_update list"
  maxEntries :: nat


definition updatePosition_debug ::
  "track_data \<Rightarrow> debug_state option \<Rightarrow> bool \<Rightarrow> real \<Rightarrow> real
     \<Rightarrow> js_error + (position_msg option \<times> debug_state option)" where
  "updatePosition_debug trackData debugState positionDebug now time =
     (if length (features trackData) = 0 then Inr (None, debugState)
      else
        (let targetTime = timeRange_start trackData + time * 1000;
             nextIndex = findIndex (\<lambda>f. timestamp_ms f > targetTime) (features trackData);
             nextIndex = (if nextIndex = - 1 then int (length (features trackData)) else nextIndex);
             prevIndex = max 0 (nextIndex - 1);
             timeSinceLastUpdate =
               now - (case debugState of None \<Rightarrow> 0 | Some ds \<Rightarrow> lastPositionUpdate ds)
         in case debugState of
              None \<Rightarrow> Inl TypeError
            | Some ds \<Rightarrow>
                (let ds = ds\<lparr>lastPositionUpdate := now\<rparr>;
                     ds = (if positionDebug
                           then ds\<lparr>positionUpdates :=
                                  (if length (positionUpdates ds) \<ge> maxEntries ds
                                   then tl (positionUpdates ds) else positionUpdates ds)
                                  @ [\<lparr>pu_time = time, pu_prevIndex = prevIndex,
                                       pu_nextIndex = nextIndex,
                                       pu_totalPoints = length (features trackData),
                                       pu_updateInterval = timeSinceLastUpdate\<rparr>]\<rparr>
                           else ds)
                 in case at_index (features trackData) prevIndex of
                      None \<Rightarrow> Inr (None, Some ds)
                    | Some prev \<Rightarrow>
                        (let next = (case at_index (features trackData) nextIndex of
                                       None \<Rightarrow> prev | Some f \<Rightarrow> f);
                             prevTime = timestamp_ms prev;
                             nextTime = timestamp_ms next;
                             t = (if prevTime = nextTime then 0
                                  else (targetTime - prevTime) / (nextTime - prevTime))
                         in Inr (Some \<lparr>lng = coord_lng prev, lat = coord_lat prev,
                                   hint_bearing = feature_bearing prev, interp_t = Some t,
                                   targetLng = Some (coord_lng next),
                                   targetLat = Some (coord_lat next),
                                   targetBearing = feature_bearing next\<rparr>, Some ds)))))"

subsection \<open>Camera follow\<close>

record camera =
  isLocked :: bool
  offset_x :: real
  offset_y :: real
  offset_zoom :: real
  dampingRatio :: real

definition initial_camera :: camera where
  "initial_camera =
     \<lparr>isLocked = False, offset_x = 0, offset_y = 0, offset_zoom = 0, dampingRatio = 6 / 10\<rparr>"

text \<open>The part of the map view that the controller reads.\<close>

record map_view =
  map_zoom :: real
  map_center_lng :: real
  map_center_lat :: real

text \<open>The options handed to \<^verbatim>\<open>map.easeTo\<close>.\<close>

record ease_options =
  center_lng :: real
  center_lat :: real
  ease_bearing :: real
  pitch :: real
  ease_duration :: real

definition calculateCameraOffset :: "camera \<Rightarrow> map_view \<Rightarrow> real \<Rightarrow> vec" where
  "calculateCameraOffset cam mp bearing' =
     (let rad = (bearing' - 90) * pi / 180;
          distance = 2 powr (20 - map_zoom mp) * offset_zoom cam
      in \<lparr>vec_x = cos rad * distance, vec_y = sin rad * distance\<rparr>)"

text \<open>
  \<^verbatim>\<open>updateCamera\<close>: the \<^verbatim>\<open>easeTo\<close> call it makes. The controller calls it on a worker
  reply when \<^verbatim>\<open>camera.isLocked\<close> holds. The instrumented copy then records the update
  for the overlay, which changes neither the call nor the camera.
\<close>

definition updateCamera :: "camera \<Rightarrow> map_view \<Rightarrow> position_msg \<Rightarrow> real \<Rightarrow> ease_options" where
  "updateCamera cam mp pos bearing' =
     (let offset = calculateCameraOffset cam mp bearing'
      in \<lparr>center_lng = lng pos + vec_x offset, center_lat = lat pos + vec_y offset,
          ease_bearing = bearing', pitch = 60, ease_duration = 0\<rparr>)"

text \<open>
  \<^verbatim>\<open>updateCameraOffset\<close> and \<^verbatim>\<open>toggleCameraLock\<close>; \<open>vehiclePosition\<close> is what
  \<^verbatim>\<open>webglLayer.getCurrentPosition()\<close> returns, \<open>None\<close> when there is none.
\<close>

definition updateCameraOffset :: "map_view \<Rightarrow> (real \<times> real) option \<Rightarrow> camera \<Rightarrow> camera" where
  "updateCameraOffset mp vehiclePosition cam =
     (if \<not> isLocked cam then cam
      else case vehiclePosition of
             None \<Rightarrow> cam
           | Some v \<Rightarrow> cam\<lparr>offset_x := map_center_lng mp - fst v,
                            offset_y := map_center_lat mp - snd v,
                            offset_zoom := map_zoom mp\<rparr>)"

definition toggleCameraLock :: "map_view \<Rightarrow> (real \<times> real) option \<Rightarrow> camera \<Rightarrow> camera" where
  "toggleCameraLock mp vehiclePosition cam =
     (let cam' = cam\<lparr>isLocked := \<not> isLocked cam\<rparr>
      in if isLocked cam' then updateCameraOffset mp vehiclePosition cam' else cam')"


section \<open>The loops of normalizeBearing in exact arithmetic\<close>

lemma subtractLoop_step: "360 < b \<Longrightarrow> subtractLoop b = subtractLoop (b - 360)"
  by (subst subtractLoop.simps) simp

lemma subtractLoop_stop: "b \<le> 360 \<Longrightarrow> subtractLoop b = Some b"
  by (subst subtractLoop.simps) simp

lemma addLoop_step: "b < 0 \<Longrightarrow> addLoop b = addLoop (b + 360)"
  by (subst addLoop.simps) simp

lemma addLoop_stop: "0 \<le> b \<Longrightarrow> addLoop b = Some b"
  by (subst addLoop.simps) simp

lemma subtractLoop_bounded:
  "b \<le> 360 + 360 * real n \<Longrightarrow>
     \<exists>y. subtractLoop b = Some y \<and> y \<le> 360 \<and> (0 < b \<longrightarrow> 0 < y) \<and> (b \<le> 360 \<longrightarrow> y = b)"
proof (induction n arbitrary: b)
  case 0
  then show ?case by (simp add: subtractLoop_stop)
next
  case (Suc n)
  show ?case
  proof (cases "b \<le> 360")
    case True
    then show ?thesis by (simp add: subtractLoop_stop)
  next
    case False
    then have big: "360 < b" by simp
    from Suc.prems have "b - 360 \<le> 360 + 360 * real n" by simp
    from Suc.IH [OF this] obtain y where
      y: "subtractLoop (b - 360) = Some y" "y \<le> 360" "0 < b - 360 \<longrightarrow> 0 < y"
      by blast
    from big y show ?thesis by (simp add: subtractLoop_step)
  qed
qed

lemma subtractLoop_returns:
  "\<exists>y. subtractLoop b = Some y \<and> y \<le> 360 \<and> (0 < b \<longrightarrow> 0 < y) \<and> (b \<le> 360 \<longrightarrow> y = b)"
proof -
  obtain n :: nat where "b / 360 \<le> real n"
    using real_arch_simple by blast
  then have "b \<le> 360 + 360 * real n" by simp
  then show ?thesis by (rule subtractLoop_bounded)
qed

lemma addLoop_bounded:
  "- b \<le> 360 * real n \<Longrightarrow>
     \<exists>y. addLoop b = Some y \<and> 0 \<le> y \<and> (b < 0 \<longrightarrow> y < 360) \<and> (0 \<le> b \<longrightarrow> y = b)"
proof (induction n arbitrary: b)
  case 0
  then show ?case by (simp add: addLoop_stop)
next
  case (Suc n)
  show ?case
  proof (cases "0 \<le> b")
    case True
    then show ?thesis by (simp add: addLoop_stop)
  next
    case False
    then have neg: "b < 0" by simp
    from Suc.prems have "- (b + 360) \<le> 360 * real n" by simp
    from Suc.IH [OF this] obtain y where
      y: "addLoop (b + 360) = Some y" "0 \<le> y" "b + 360 < 0 \<longrightarrow> y < 360" "0 \<le> b + 360 \<longrightarrow> y = b + 360"
      by blast
    have "y < 360"
    proof (cases "b + 360 < 0")
      case True
      with y show ?thesis by simp
    next
      case False
      with y neg show ?thesis by simp
    qed
    with neg y show ?thesis by (simp add: addLoop_step)
  qed
qed

lemma addLoop_returns:
  "\<exists>y. addLoop b = Some y \<and> 0 \<le> y \<and> (b < 0 \<longrightarrow> y < 360) \<and> (0 \<le> b \<longrightarrow> y = b)"
proof -
  obtain n :: nat where "- b / 360 \<le> real n"
    using real_arch_simple by blast
  then have "- b \<le> 360 * real n" by simp
  then show ?thesis by (rule addLoop_bounded)
qed

lemma normalizeBearing_range:
  "\<exists>y. normalizeBearing d = Some y \<and> 0 \<le> y \<and> y \<le> 360"
proof -
  obtain u where u: "subtractLoop d = Some u" "u \<le> 360" "0 < d \<longrightarrow> 0 < u" "d \<le> 360 \<longrightarrow> u = d"
    using subtractLoop_returns [of d] by blast
  obtain y where y: "addLoop u = Some y" "0 \<le> y" "u < 0 \<longrightarrow> y < 360" "0 \<le> u \<longrightarrow> y = u"
    using addLoop_returns [of u] by blast
  have "y \<le> 360"
  proof (cases "u < 0")
    case True
    with y show ?thesis by simp
  next
    case False
    with y u show ?thesis by simp
  qed
  with u y show ?thesis by (simp add: normalizeBearing_def)
qed

lemma normalizeBearing_small: "0 \<le> b \<Longrightarrow> b \<le> 360 \<Longrightarrow> normalizeBearing b = Some b"
  by (simp add: normalizeBearing_def subtractLoop_stop addLoop_stop)

lemma normalizeBearing_periodic:
  "d \<noteq> 0 \<Longrightarrow> normalizeBearing (d + 360) = normalizeBearing d"
proof (cases "0 < d")
  case True
  then show ?thesis by (simp add: normalizeBearing_def subtractLoop_step)
next
  case False
  assume "d \<noteq> 0"
  with False have neg: "d < 0" by simp
  then have "normalizeBearing (d + 360) = addLoop (d + 360)"
    by (simp add: normalizeBearing_def subtractLoop_stop)
  moreover from neg have "normalizeBearing d = addLoop (d + 360)"
    by (simp add: normalizeBearing_def subtractLoop_stop addLoop_step)
  ultimately show ?thesis by simp
qed

text \<open>
  Claim C4 asks for a result in the half-open interval from 0 to 360 and for
  \<open>normalizeBearing d = normalizeBearing (d + 360)\<close>. The first loop runs while the
  bearing is strictly above 360, so 360 itself is returned unchanged, while 0 stays 0:
  the result at 360 is outside the interval, and the results at 0 and at 0 + 360 differ.
  The worker reaches this value by itself: smoothing the bearing 345 towards 5 with the
  configured factor normalises 360.
  (\<open>normalizeBearing_range\<close> and \<open>normalizeBearing_periodic\<close> above give what does hold
  in exact arithmetic: the closed interval, and the period away from 0.)
\<close>

theorem normalizeBearing_at_360:
  "normalizeBearing 360 = Some 360 \<and> normalizeBearing 0 = Some 0 \<and>
   smoothBearing 345 5 bearingSmoothing = Some 360"
  by (simp add: smoothBearing_def bearingSmoothing_def Let_def normalizeBearing_def
      subtractLoop_stop addLoop_stop)

section \<open>The loops of normalizeBearing in double precision\<close>

lemma floor_log2_5: "\<lfloor>log 2 5\<rfloor> = 2"
  by (subst floor_log_eq_powr_iff) simp_all

lemma floor_log2_365: "\<lfloor>log 2 365\<rfloor> = 8"
  by (subst floor_log_eq_powr_iff) simp_all

lemma round_double_5: "round_double 5 = 5"
  by (simp add: round_double_def round_even_def floor_log2_5 Let_def powr_minus)

lemma round_double_365: "round_double 365 = 365"
  by (simp add: round_double_def round_even_def floor_log2_365 Let_def powr_minus)

text \<open>
  On the bearings used for claims C4 and C6 the rounded loops compute what the exact ones
  do: no step is taken at 0 and 360, and the one step from 365 is exact.
\<close>

lemma normalizeBearing_double_365: "normalizeBearing_double 365 = Some 5"
proof -
  have "subtractLoop_double 365 = subtractLoop_double 5"
    by (subst subtractLoop_double.simps) (simp add: round_double_5)
  also have "\<dots> = Some 5"
    by (subst subtractLoop_double.simps) simp
  finally have "subtractLoop_double 365 = Some 5" .
  moreover have "addLoop_double 5 = Some 5"
    by (subst addLoop_double.simps) simp
  ultimately show ?thesis by (simp add: normalizeBearing_double_def)
qed

lemma normalizeBearing_double_no_step:
  "0 \<le> b \<Longrightarrow> b \<le> 360 \<Longrightarrow> normalizeBearing_double b = Some b"
proof -
  assume b: "0 \<le> b" "b \<le> 360"
  then have "subtractLoop_double b = Some b"
    by (subst subtractLoop_double.simps) simp
  moreover from b have "addLoop_double b = Some b"
    by (subst addLoop_double.simps) simp
  ultimately show ?thesis by (simp add: normalizeBearing_double_def)
qed

lemma normalizeBearing_double_agrees:
  "normalizeBearing_double 0 = normalizeBearing 0 \<and>
   normalizeBearing_double 360 = normalizeBearing 360 \<and>
   normalizeBearing_double 365 = normalizeBearing 365"
  by (simp add: normalizeBearing_double_no_step normalizeBearing_double_365 normalizeBearing_small)
    (simp add: normalizeBearing_def subtractLoop_step subtractLoop_stop addLoop_stop)

text \<open>
  \<open>10 ^ 19\<close> lies between \<open>2 ^ 63\<close> and \<open>2 ^ 64\<close>, where neighbouring doubles are 2048
  apart. It is a double itself, and 360 less or more than it rounds back to it.
\<close>

lemma floor_log2_big: "\<lfloor>log 2 10000000000000000000\<rfloor> = 63"
  by (subst floor_log_eq_powr_iff) simp_all

lemma floor_log2_big_less: "\<lfloor>log 2 9999999999999999640\<rfloor> = 63"
  by (subst floor_log_eq_powr_iff) simp_all

lemma round_double_big: "round_double 10000000000000000000 = 10000000000000000000"
  by (simp add: round_double_def round_even_def floor_log2_big Let_def)

lemma round_double_big_minus_360: "round_double 9999999999999999640 = 10000000000000000000"
  by (simp add: round_double_def round_even_def floor_log2_big_less Let_def)

lemma round_double_big_plus_360: "round_double (- 9999999999999999640) = - 10000000000000000000"
  by (simp add: round_double_def round_even_def floor_log2_big_less Let_def)

lemma subtractLoop_double_stuck:
  assumes "subtractLoop_double b = Some y"
  shows "b \<noteq> 10000000000000000000"
proof (rule subtractLoop_double.raw_induct
    [where P = "\<lambda>b y. b \<noteq> 10000000000000000000", OF _ assms])
  fix f :: "real \<Rightarrow> real option" and b y :: real
  assume IH: "\<And>x y. f x = Some y \<Longrightarrow> x \<noteq> 10000000000000000000"
    and step: "(if 360 < b then f (round_double (b - 360)) else Some b) = Some y"
  show "b \<noteq> 10000000000000000000"
  proof
    assume "b = 10000000000000000000"
    with step have "f 10000000000000000000 = Some y"
      by (simp add: round_double_big_minus_360)
    from IH [OF this] show False by simp
  qed
qed

lemma addLoop_double_stuck:
  assumes "addLoop_double b = Some y"
  shows "b \<noteq> - 10000000000000000000"
proof (rule addLoop_double.raw_induct
    [where P = "\<lambda>b y. b \<noteq> - 10000000000000000000", OF _ assms])
  fix f :: "real \<Rightarrow> real option" and b y :: real
  assume IH: "\<And>x y. f x = Some y \<Longrightarrow> x \<noteq> - 10000000000000000000"
    and step: "(if b < 0 then f (round_double (b + 360)) else Some b) = Some y"
  show "b \<noteq> - 10000000000000000000"
  proof
    assume "b = - 10000000000000000000"
    with step have "f (- 10000000000000000000) = Some y"
      by (simp add: round_double_big_plus_360)
    from IH [OF this] show False by simp
  qed
qed

text \<open>
  Claim C10 says that both loops of \<^verbatim>\<open>normalizeBearing\<close> exit for every finite
  argument. In double precision they do not: \<open>10 ^ 19\<close> is a finite double, the first loop
  subtracts 360 from it and gets \<open>10 ^ 19\<close> back, for ever; the second loop does the same
  with \<open>- 10 ^ 19\<close>. Neither call returns.
\<close>

theorem normalizeBearing_double_never_returns:
  "round_double 10000000000000000000 = 10000000000000000000 \<and>
   normalizeBearing_double 10000000000000000000 = None \<and>
   normalizeBearing_double (- 10000000000000000000) = None"
proof -
  have up: "subtractLoop_double 10000000000000000000 = None"
    using subtractLoop_double_stuck [of 10000000000000000000]
    by (cases "subtractLoop_double 10000000000000000000") auto
  have "subtractLoop_double (- 10000000000000000000) = Some (- 10000000000000000000)"
    by (subst subtractLoop_double.simps) simp
  moreover have "addLoop_double (- 10000000000000000000) = None"
    using addLoop_double_stuck [of "- 10000000000000000000"]
    by (cases "addLoop_double (- 10000000000000000000)") auto
  ultimately have down: "normalizeBearing_double (- 10000000000000000000) = None"
    by (simp add: normalizeBearing_double_def)
  from up down show ?thesis
    by (simp add: normalizeBearing_double_def round_double_big)
qed

section \<open>Bearing smoothing\<close>


section \<open>Slerp and its planar fallback\<close>

lemma cos_lower: "1 - x\<^sup>2 / 2 \<le> cos (x::real)"
proof -
  have "\<bar>sin (x / 2)\<bar> \<le> \<bar>x / 2\<bar>" by (rule abs_sin_x_le_abs_x)
  then have "(sin (x / 2))\<^sup>2 \<le> (x / 2)\<^sup>2" by (rule abs_le_square_iff [THEN iffD1])
  moreover have "cos x = 1 - 2 * (sin (x / 2))\<^sup>2"
    using cos_double_sin [of "x / 2"] by simp
  ultimately show ?thesis by (simp add: power_divide)
qed

lemma cos_half_degree: "9999 / 10000 < cos (pi / 360)"
proof -
  have "pi / 360 < 1 / 90" using pi_less_4 by simp
  moreover have "0 \<le> pi / 360" by simp
  ultimately have "(pi / 360)\<^sup>2 \<le> (1 / 90)\<^sup>2"
    by (intro power_mono) simp_all
  then have "1 - (1 / 90)\<^sup>2 / 2 \<le> 1 - (pi / 360)\<^sup>2 / 2" by simp
  also have "\<dots> \<le> cos (pi / 360)" by (rule cos_lower)
  finally show ?thesis by (simp add: power2_eq_square)
qed

lemma sphereDot_half_degree:
  "sphereDot (lngLat 0 0) (lngLat (1 / 2) 0) = cos (pi / 360)"
  by (simp add: sphereDot_def cartesian_def lngLat_def toRadians_def Let_def)

text \<open>
  Claim C7. When the dot product of the two unit vectors exceeds 0.9999,
  \<^verbatim>\<open>slerpPosition\<close> returns the planar linear interpolation of \<open>lng\<close> and \<open>lat\<close> at
  \<open>t\<close>, that is \<open>lng a + (lng b - lng a) * t\<close> and \<open>lat a + (lat b - lat a) * t\<close>, which
  is also what \<^verbatim>\<open>lerpPosition\<close> returns; at \<open>t = 1/2\<close> this is the planar midpoint.
\<close>

theorem slerp_close_points_is_lerp:
  "sphereDot a b > 9999 / 10000 \<Longrightarrow>
     slerpPosition a b t =
       lngLat (lng a + (lng b - lng a) * t) (lat a + (lat b - lat a) * t) \<and>
     lerpPosition a b t =
       lngLat (lng a + (lng b - lng a) * t) (lat a + (lat b - lat a) * t) \<and>
     slerpPosition a b (1 / 2) = lngLat ((lng a + lng b) / 2) ((lat a + lat b) / 2)"
  by (simp add: slerpPosition_def lerpPosition_def lngLat_def Let_def split: prod.splits)
    (simp add: field_simps)

text \<open>
  Claim C7, witness: two points on the equator half a degree apart. Their dot product is
  \<open>cos (pi / 360)\<close>, above the threshold. At \<open>t = 1/4\<close> the result is an eighth of a
  degree from the first point, and the midpoint is at a quarter of a degree.
\<close>

theorem slerp_close_points_is_lerp_witness:
  "sphereDot (lngLat 0 0) (lngLat (1 / 2) 0) > 9999 / 10000 \<and>
   slerpPosition (lngLat 0 0) (lngLat (1 / 2) 0) (1 / 4) = lngLat (1 / 8) 0 \<and>
   slerpPosition (lngLat 0 0) (lngLat (1 / 2) 0) (1 / 2) = lngLat (1 / 4) 0"
proof -
  have h: "sphereDot (lngLat 0 0) (lngLat (1 / 2) 0) > 9999 / 10000"
    using cos_half_degree by (simp add: sphereDot_half_degree)
  from slerp_close_points_is_lerp [OF h, of "1 / 4"] h show ?thesis
    by (simp add: lngLat_def)
qed

section \<open>The estimator\<close>

text \<open>
  Claim C1 expects the first reply to carry the bearing hint 90. The seeding branch stores
  the hint in \<open>lastValidBearing\<close> and leaves \<open>bearing\<close> at the 0 of a fresh state, so
  the bearing after the first fix is not 90.
\<close>

theorem seed_bearing_is_not_hint:
  "map_option (bearing \<circ> snd)
     (onmessage (Some ((lngLat 0 0)\<lparr>hint_bearing := Some 90\<rparr>)) 1000 initial_state) \<noteq> Some 90"
  by (simp add: onmessage_def processPosition_def initial_state_def poseOf_def js_or_def
      option.map_comp)

text \<open>
  Claim C1, as the code has it. On a fresh estimator the first fix with raw position
  \<open>p\<close>, bearing hint 90 and timestamp 1000 is answered with the seeded pose, unsmoothed:
  position \<open>p\<close>, speed 0, velocity 0, timestamp 1000, and bearing 0. In the state the
  acceleration is 0 and the hint 90 is kept as \<open>lastValidBearing\<close>.
\<close>

theorem seed_first_fix:
  "onmessage (Some (p\<lparr>hint_bearing := Some 90\<rparr>)) 1000 initial_state =
     Some (PoseReply \<lparr>resp_position = Some (p\<lparr>hint_bearing := Some 90\<rparr>), resp_bearing = 0,
                      resp_speed = 0, resp_velocity = \<lparr>vec_x = 0, vec_y = 0\<rparr>,
                      resp_timestamp = 1000\<rparr>,
           \<lparr>position = Some (p\<lparr>hint_bearing := Some 90\<rparr>),
            velocity = \<lparr>vec_x = 0, vec_y = 0\<rparr>, acceleration = \<lparr>vec_x = 0, vec_y = 0\<rparr>,
            bearing = 0, speed = 0, lastTimestamp = 1000, lastValidBearing = 90\<rparr>)"
  by (simp add: onmessage_def processPosition_def initial_state_def poseOf_def js_or_def)

text \<open>
  Claim C5. Once the estimator holds a position, a fix whose timestamp is not later than
  \<open>lastTimestamp\<close> leaves the whole state as it was, and the reply is the pose of that
  state; no error is posted.
\<close>

theorem nonincreasing_timestamp_absorbed:
  "position state \<noteq> None \<Longrightarrow> timestamp \<le> lastTimestamp state \<Longrightarrow>
     processPosition newPosition timestamp state = Some state \<and>
     onmessage (Some newPosition) timestamp state = Some (PoseReply (poseOf state), state)"
  by (auto simp add: onmessage_def processPosition_def Let_def)

text \<open>
  Claim C5, witness: an estimator seeded at timestamp 1000 receives a second, different
  fix with the same timestamp.
\<close>

theorem nonincreasing_timestamp_absorbed_witness:
  "position (initial_state\<lparr>position := Some (lngLat 1 2), lastTimestamp := 1000\<rparr>) \<noteq> None \<and>
   (1000::real) \<le> lastTimestamp (initial_state\<lparr>position := Some (lngLat 1 2), lastTimestamp := 1000\<rparr>) \<and>
   processPosition (lngLat 3 4) 1000 (initial_state\<lparr>position := Some (lngLat 1 2), lastTimestamp := 1000\<rparr>)
     = Some (initial_state\<lparr>position := Some (lngLat 1 2), lastTimestamp := 1000\<rparr>) \<and>
   onmessage (Some (lngLat 3 4)) 1000 (initial_state\<lparr>position := Some (lngLat 1 2), lastTimestamp := 1000\<rparr>)
     = Some (PoseReply (poseOf (initial_state\<lparr>position := Some (lngLat 1 2), lastTimestamp := 1000\<rparr>)),
             initial_state\<lparr>position := Some (lngLat 1 2), lastTimestamp := 1000\<rparr>)"
  using nonincreasing_timestamp_absorbed
      [of "initial_state\<lparr>position := Some (lngLat 1 2), lastTimestamp := 1000\<rparr>" 1000 "lngLat 3 4"]
  by simp

section \<open>The two workers compared\<close>

text \<open>
  Claim C2 says that the two workers compute the same state on every message. Only the
  debug-instrumented worker has the interpolation branch; the other one treats an
  interpolation request as a raw fix. On a fresh state, a request with source and target
  bearing 90 gives bearing 90 in the first and bearing 0 in the second.
\<close>

theorem debug_worker_interpolates:
  "processPosition_debug
     \<lparr>lng = 0, lat = 0, hint_bearing = Some 90, interp_t = Some 0,
      targetLng = Some 0, targetLat = Some 0, targetBearing = Some 90\<rparr> 1000 initial_state
   \<noteq> processPosition
     \<lparr>lng = 0, lat = 0, hint_bearing = Some 90, interp_t = Some 0,
      targetLng = Some 0, targetLat = Some 0, targetBearing = Some 90\<rparr> 1000 initial_state"
proof
  let ?m = "\<lparr>lng = 0, lat = 0, hint_bearing = Some 90, interp_t = Some 0,
      targetLng = Some 0, targetLat = Some 0, targetBearing = Some (90::real)\<rparr>"
  assume eq: "processPosition_debug ?m 1000 initial_state = processPosition ?m 1000 initial_state"
  have "map_option bearing (processPosition_debug ?m 1000 initial_state) = Some 90"
    by (simp add: processPosition_debug_def isInterpolationRequest_def interpolateRequest_def
        js_or_def Let_def normalizeBearing_small)
  moreover have "map_option bearing (processPosition ?m 1000 initial_state) = Some 0"
    by (simp add: processPosition_def initial_state_def)
  ultimately show False using eq by simp
qed

text \<open>
  Claim C2, as the code has it. On every message that is not an interpolation request,
  and from every state, the two workers compute the same updated state (or both do not
  return).
\<close>

theorem debug_worker_raw_fix_same:
  "\<not> isInterpolationRequest newPosition \<Longrightarrow>
     processPosition_debug newPosition timestamp state = processPosition newPosition timestamp state"
  by (cases "position state") (simp_all add: processPosition_debug_def processPosition_def Let_def)

text \<open>Claim C2, witness: a raw fix with a bearing hint, sent to a fresh estimator.\<close>

theorem debug_worker_raw_fix_same_witness:
  "\<not> isInterpolationRequest ((lngLat 1 2)\<lparr>hint_bearing := Some 90\<rparr>) \<and>
   processPosition_debug ((lngLat 1 2)\<lparr>hint_bearing := Some 90\<rparr>) 1000 initial_state =
   processPosition ((lngLat 1 2)\<lparr>hint_bearing := Some 90\<rparr>) 1000 initial_state"
  using debug_worker_raw_fix_same [of "(lngLat 1 2)\<lparr>hint_bearing := Some 90\<rparr>" 1000 initial_state]
  by (simp add: isInterpolationRequest_def lngLat_def)

section \<open>The animation controller\<close>

text \<open>
  Claim C3 says that \<^verbatim>\<open>setSpeed\<close> rejects a multiplier that is not positive and leaves
  the speed unchanged. The method assigns without a check: from the initial speed 1,
  \<open>setSpeed (-1)\<close> changes the speed.
\<close>

theorem setSpeed_nonpositive_accepted:
  "anim_speed (setSpeed (- 1) initial_anim_state) \<noteq> anim_speed initial_anim_state"
  by (simp add: setSpeed_def initial_anim_state_def)

text \<open>
  Claim C3, as the code has it. For every multiplier, positive or not, \<^verbatim>\<open>setSpeed\<close>
  sets the speed to it and changes no other field of the animation state.
\<close>

theorem setSpeed_assigns:
  "anim_speed (setSpeed mult st) = mult \<and>
   isPlaying (setSpeed mult st) = isPlaying st \<and>
   currentTime (setSpeed mult st) = currentTime st \<and>
   duration (setSpeed mult st) = duration st \<and>
   lastFrameTime (setSpeed mult st) = lastFrameTime st"
  by (simp add: setSpeed_def)

subsection \<open>Sampling the track\<close>

lemma findIndexFrom_first:
  "i < length xs \<Longrightarrow> P (xs ! i) \<Longrightarrow> \<forall>j<i. \<not> P (xs ! j) \<Longrightarrow>
     findIndexFrom P xs k = int (k + i)"
proof (induction xs arbitrary: i k)
  case Nil
  then show ?case by simp
next
  case (Cons x xs)
  show ?case
  proof (cases i)
    case 0
    with Cons.prems show ?thesis by simp
  next
    case (Suc i')
    from Cons.prems Suc have "\<not> P x" by auto
    moreover from Cons.prems Suc have "i' < length xs" "P (xs ! i')" by simp_all
    moreover from Cons.prems Suc have "\<forall>j<i'. \<not> P (xs ! j)" by auto
    ultimately show ?thesis using Cons.IH [of i' "Suc k"] Suc by simp
  qed
qed

lemma findIndex_first:
  "i < length xs \<Longrightarrow> P (xs ! i) \<Longrightarrow> \<forall>j<i. \<not> P (xs ! j) \<Longrightarrow> findIndex P xs = int i"
  using findIndexFrom_first [of i xs P 0] by (simp add: findIndex_def)

lemma updatePosition_found:
  assumes i: "i < length (features td)"
    and after: "timestamp_ms (features td ! i) > timeRange_start td + time * 1000"
    and first: "\<forall>j<i. \<not> timestamp_ms (features td ! j) > timeRange_start td + time * 1000"
  shows "updatePosition td time =
     Some \<lparr>lng = coord_lng (features td ! (i - 1)), lat = coord_lat (features td ! (i - 1)),
           hint_bearing = feature_bearing (features td ! (i - 1)),
           interp_t = Some (if timestamp_ms (features td ! (i - 1)) = timestamp_ms (features td ! i)
                            then 0
                            else (timeRange_start td + time * 1000 - timestamp_ms (features td ! (i - 1)))
                                 / (timestamp_ms (features td ! i) - timestamp_ms (features td ! (i - 1)))),
           targetLng = Some (coord_lng (features td ! i)),
           targetLat = Some (coord_lat (features td ! i)),
           targetBearing = feature_bearing (features td ! i)\<rparr>"
proof -
  let ?P = "\<lambda>f. timestamp_ms f > timeRange_start td + time * 1000"
  have fi: "findIndex ?P (features td) = int i"
    using i after first by (rule findIndex_first [where P = ?P])
  have ne: "length (features td) \<noteq> 0" using i by auto
  have prev: "at_index (features td) (max 0 (int i - 1)) = Some (features td ! (i - 1))"
    using i by (cases i) (simp_all add: at_index_def nat_diff_distrib')
  have nxt: "at_index (features td) (int i) = Some (features td ! i)"
    using i by (simp add: at_index_def)
  show ?thesis
    using ne by (simp add: updatePosition_def fi prev nxt Let_def)
qed

text \<open>
  With a \<open>debugState\<close> at hand the instrumented copy posts what the plain copy posts.
\<close>

lemma updatePosition_debug_posts:
  "map_sum id fst (updatePosition_debug td (Some ds) positionDebug now time) =
     Inr (updatePosition td time)"
  by (simp add: updatePosition_debug_def updatePosition_def Let_def split: option.splits)

lemma updatePosition_debug_found:
  assumes "i < length (features td)"
    and "timestamp_ms (features td ! i) > timeRange_start td + time * 1000"
    and "\<forall>j<i. \<not> timestamp_ms (features td ! j) > timeRange_start td + time * 1000"
  shows "map_sum id fst (updatePosition_debug td (Some ds) positionDebug now time) =
     Inr (Some \<lparr>lng = coord_lng (features td ! (i - 1)), lat = coord_lat (features td ! (i - 1)),
           hint_bearing = feature_bearing (features td ! (i - 1)),
           interp_t = Some (if timestamp_ms (features td ! (i - 1)) = timestamp_ms (features td ! i)
                            then 0
                            else (timeRange_start td + time * 1000 - timestamp_ms (features td ! (i - 1)))
                                 / (timestamp_ms (features td ! i) - timestamp_ms (features td ! (i - 1)))),
           targetLng = Some (coord_lng (features td ! i)),
           targetLat = Some (coord_lat (features td ! i)),
           targetBearing = feature_bearing (features td ! i)\<rparr>)"
  using updatePosition_found [OF assms] by (simp add: updatePosition_debug_posts)


subsection \<open>Camera follow\<close>

text \<open>
  Claim C9 takes the factor \<^verbatim>\<open>camera.offset.zoom\<close> to be the zoom captured when the lock
  was engaged. \<^verbatim>\<open>updateCameraOffset\<close> captures it only if the vehicle layer has a
  current position, and returns early otherwise. A new controller locked at zoom 20 with
  no vehicle position is locked with \<open>offset_zoom = 0\<close>: for a vehicle at (1, 2) with
  bearing 90 the centre is the vehicle itself, not 20 degrees east of it as the captured
  zoom 20 would make it.
\<close>

theorem locked_without_vehicle_position:
  "isLocked (toggleCameraLock \<lparr>map_zoom = 20, map_center_lng = 5, map_center_lat = 6\<rparr>
               None initial_camera) \<and>
   center_lng
     (updateCamera
        (toggleCameraLock \<lparr>map_zoom = 20, map_center_lng = 5, map_center_lat = 6\<rparr>
           None initial_camera)
        \<lparr>map_zoom = 20, map_center_lng = 5, map_center_lat = 6\<rparr> (lngLat 1 2) 90)
     \<noteq> 1 + cos ((90 - 90) * pi / 180) * (2 powr (20 - 20) * 20)"
  by (simp add: toggleCameraLock_def updateCameraOffset_def initial_camera_def
      updateCamera_def calculateCameraOffset_def lngLat_def Let_def)

text \<open>
  Claim C9, as the code has it. The \<^verbatim>\<open>easeTo\<close> call of \<^verbatim>\<open>updateCamera\<close>, which the
  controller makes while the camera is locked, has its centre at the vehicle position
  plus \<open>(cos rad * distance, sin rad * distance)\<close>, where
  \<open>rad = (bearing - 90) * pi / 180\<close> and \<open>distance = 2 powr (20 - zoom) * offset_zoom\<close>;
  its bearing is the vehicle's and its pitch is 60. Engaging the lock sets \<open>offset_zoom\<close>
  to the map zoom of that moment when the vehicle layer has a current position, and
  leaves it as it was when there is none.
\<close>

theorem locked_camera_target:
  "updateCamera cam mp pos b =
     \<lparr>center_lng = lng pos + cos ((b - 90) * pi / 180)
                         * (2 powr (20 - map_zoom mp) * offset_zoom cam),
      center_lat = lat pos + sin ((b - 90) * pi / 180)
                         * (2 powr (20 - map_zoom mp) * offset_zoom cam),
      ease_bearing = b, pitch = 60, ease_duration = 0\<rparr>
   \<and> (\<not> isLocked cam0 \<longrightarrow>
        isLocked (toggleCameraLock mp0 v cam0) \<and>
        offset_zoom (toggleCameraLock mp0 v cam0) =
          (case v of None \<Rightarrow> offset_zoom cam0 | Some p \<Rightarrow> map_zoom mp0))"
  by (simp add: updateCamera_def calculateCameraOffset_def Let_def
      toggleCameraLock_def updateCameraOffset_def split: option.splits)

text \<open>
  Claim C9, witness: the lock is switched on at zoom 20 with the vehicle at (1, 2), which
  captures \<open>offset_zoom = 20\<close>; a bearing of 90 then gives \<open>rad = 0\<close> and distance 20, so
  the centre is 20 degrees of longitude east of the vehicle.
\<close>

theorem locked_camera_target_witness:
  "\<not> isLocked initial_camera \<and>
   isLocked (toggleCameraLock \<lparr>map_zoom = 20, map_center_lng = 5, map_center_lat = 6\<rparr>
               (Some (1, 2)) initial_camera) \<and>
   updateCamera
     (toggleCameraLock \<lparr>map_zoom = 20, map_center_lng = 5, map_center_lat = 6\<rparr>
        (Some (1, 2)) initial_camera)
     \<lparr>map_zoom = 20, map_center_lng = 5, map_center_lat = 6\<rparr> (lngLat 1 2) 90 =
     \<lparr>center_lng = 21, center_lat = 2, ease_bearing = 90, pitch = 60, ease_duration = 0\<rparr>"
proof -
  let ?mp = "\<lparr>map_zoom = 20, map_center_lng = 5, map_center_lat = 6\<rparr>"
  let ?cam = "toggleCameraLock ?mp (Some (1, 2)) initial_camera"
  have unlocked: "\<not> isLocked initial_camera"
    by (simp add: initial_camera_def)
  from locked_camera_target [of ?cam ?mp "lngLat 1 2" 90 initial_camera ?mp "Some (1, 2)"] unlocked
  have locked: "isLocked ?cam" and zoom: "offset_zoom ?cam = 20"
    and ease: "updateCamera ?cam ?mp (lngLat 1 2) 90 =
      \<lparr>center_lng = lng (lngLat 1 2) + cos ((90 - 90) * pi / 180)
                          * (2 powr (20 - map_zoom ?mp) * offset_zoom ?cam),
       center_lat = lat (lngLat 1 2) + sin ((90 - 90) * pi / 180)
                          * (2 powr (20 - map_zoom ?mp) * offset_zoom ?cam),
       ease_bearing = 90, pitch = 60, ease_duration = 0\<rparr>"
    by simp_all
  from ease zoom have "updateCamera ?cam ?mp (lngLat 1 2) 90 =
     \<lparr>center_lng = 21, center_lat = 2, ease_bearing = 90, pitch = 60, ease_duration = 0\<rparr>"
    by (simp add: lngLat_def)
  with unlocked locked show ?thesis by blast
qed

end
